theory Spec2Isabelle
  imports Main
begin

section \<open>Values, exceptions and results\<close>

text \<open>
  The script \<^verbatim>\<open>cleanupads.py\<close> is a sequential pipeline around three remote calls.
  Its effects are modelled as a trace of events, its exceptions as values. Python
  distinguishes \<^verbatim>\<open>SystemExit\<close> (raised by \<^verbatim>\<open>sys.exit\<close>, a \<^verbatim>\<open>BaseException\<close>) from the
  subclasses of \<^verbatim>\<open>Exception\<close>: only the latter are caught by \<^verbatim>\<open>except Exception\<close>.
\<close>

datatype exn =
    Exception string
  | KeyError string
  | EOFError
  | RemoteError string

text \<open>
  \<^verbatim>\<open>str(e)\<close>, as an f-string interpolates an exception. \<^verbatim>\<open>str(KeyError(k))\<close> is the
  \<^verbatim>\<open>repr\<close> of the key: for the four quote-free literal keys of this program, the key
  between single quotes. \<^verbatim>\<open>RemoteError m\<close> stands for any exception of the client
  library whose text is \<open>m\<close>.
\<close>

fun str :: "exn \<Rightarrow> string" where
  "str (Exception m) = m"
| "str (KeyError k) = [CHR 0x27] @ k @ [CHR 0x27]"
| "str EOFError = ''EOF when reading a line''"
| "str (RemoteError m) = m"

datatype 'a res = Ok 'a | Raise exn | SysExit int

text \<open>A Python dict with string keys and string values; subscription raises on a missing key.\<close>

type_synonym dict = "(string \<times> string) list"

definition getitem :: "dict \<Rightarrow> string \<Rightarrow> exn + string" where
  "getitem d k = (case map_of d k of None \<Rightarrow> Inl (KeyError k) | Some v \<Rightarrow> Inr v)"

record filter_clause =
  f_name :: string
  f_values :: "string list"
  f_condition :: string

record delete_agent =
  agentId :: string
  da_force :: bool

datatype level = INFO | WARNING | ERROR

text \<open>The pieces of a formatted log message: literal text and interpolated values.\<close>

datatype part =
    Lit string
  | OptStr "string option"
  | Flag bool
  | StrList "string list"
  | Dicts "dict list"

datatype event =
    Print string
  | Log level "part list"
  | Input string
  | New_client
  | Paginate string "filter_clause list"
  | Batch_delete_agents "delete_agent list"
  | Start_batch_delete_configuration_task string "string list"

type_synonym 'a io = "'a res \<times> event list"

text \<open>Sequencing: the second computation runs only when the first returned normally.\<close>

definition io_bind :: "'a io \<Rightarrow> ('a \<Rightarrow> 'b io) \<Rightarrow> 'b io" where
  "io_bind m f =
     (case m of
        (Ok x, evs) \<Rightarrow> (case f x of (r, evs') \<Rightarrow> (r, evs @ evs'))
      | (Raise e, evs) \<Rightarrow> (Raise e, evs)
      | (SysExit n, evs) \<Rightarrow> (SysExit n, evs))"

section \<open>The run parameters and the outside world\<close>

text \<open>
  The five command-line settings; \<^verbatim>\<open>ADS.__init__\<close> stores each of them in the attribute
  of the same name, so the parsed arguments and the object share one record type.
\<close>

record params =
  app_name :: "string option"
  tag_key :: "string option"
  tag_value :: "string option"
  force :: bool
  unattended :: bool

type_synonym ADS = params

text \<open>
  Everything the run reads from outside: the command line, the argument parser of the
  standard library on a non-empty argument list, whether the client can be built, the
  answer of the paginated list call (an exception, or the pages, each with its
  \<^verbatim>\<open>configurations\<close> entry where present), the line on standard input (\<open>None\<close> at end of
  file), and the answers of the two delete calls (the response of batch-delete carries
  its \<^verbatim>\<open>errors\<close> entry where present).
\<close>

record world =
  argv :: "string list"
  argparse :: "string list \<Rightarrow> params res"
  client_error :: "exn option"
  paginate :: "string \<Rightarrow> filter_clause list \<Rightarrow> exn + dict list option list"
  stdin :: "string option"
  batch_delete_agents :: "delete_agent list \<Rightarrow> exn + dict list option"
  start_batch_delete_configuration_task :: "string \<Rightarrow> string list \<Rightarrow> exn option"

text \<open>
  \<^verbatim>\<open>parse_args\<close>: every argument of the parser is optional, so on an empty argument list
  the library returns the defaults (\<^verbatim>\<open>None\<close> for the three stored options, \<^verbatim>\<open>False\<close> for
  the two \<^verbatim>\<open>store_true\<close> flags). On any other list the library decides: it returns the
  parsed settings or leaves through \<^verbatim>\<open>SystemExit\<close> (usage errors, \<^verbatim>\<open>-h\<close>).
\<close>

definition parse_args :: "world \<Rightarrow> params res" where
  "parse_args w =
     (case drop 1 (argv w) of
        [] \<Rightarrow> Ok \<lparr>app_name = None, tag_key = None, tag_value = None,
                  force = False, unattended = False\<rparr>
      | a # as \<Rightarrow> argparse w (a # as))"

section \<open>The class ADS\<close>

definition init_events :: "params \<Rightarrow> event list" where
  "init_events a =
     [New_client,
      Log INFO [Lit ''Cleaning up Application Discovery Service resources with application name: '',
                OptStr (app_name a), Lit '', tag: '', OptStr (tag_key a),
                Lit '', and value: '', OptStr (tag_value a),
                Lit '', force flag setting: '', Flag (force a),
                Lit '', unattended settings: '', Flag (unattended a)]]"

text \<open>
  \<^verbatim>\<open>ADS.__init__\<close>: stores the settings, builds the session and the client (which may
  raise, for instance when no region is configured), and logs the settings.
\<close>

definition ADS_init :: "world \<Rightarrow> params \<Rightarrow> ADS io" where
  "ADS_init w a =
     (case client_error w of
        Some e \<Rightarrow> (Raise e, [New_client])
      | None \<Rightarrow>
          (Ok \<lparr>app_name = app_name a, tag_key = tag_key a, tag_value = tag_value a,
               force = force a, unattended = unattended a\<rparr>,
           init_events a))"

definition filter_params :: "ADS \<Rightarrow> (string option \<times> string) list" where
  "filter_params self =
     [(app_name self, ''server.application.name''),
      (tag_key self, ''server.tag.key''),
      (tag_value self, ''server.tag.value'')]"

text \<open>The loop over \<^verbatim>\<open>filter_params\<close>, appending a clause for each parameter that is set.\<close>

fun build_filters :: "(string option \<times> string) list \<Rightarrow> filter_clause list \<Rightarrow> filter_clause list" where
  "build_filters [] filters = filters"
| "build_filters ((param, filter_name) # rest) filters =
     build_filters rest
       (case param of
          None \<Rightarrow> filters
        | Some p \<Rightarrow> filters @ [\<lparr>f_name = filter_name, f_values = [p], f_condition = ''EQ''\<rparr>])"

text \<open>The loop over the pages: \<^verbatim>\<open>configurations.extend(page.get('configurations', []))\<close>.\<close>

fun extend_pages :: "dict list option list \<Rightarrow> dict list \<Rightarrow> dict list" where
  "extend_pages [] configurations = configurations"
| "extend_pages (page # pages) configurations =
     extend_pages pages (configurations @ (case page of None \<Rightarrow> [] | Some cs \<Rightarrow> cs))"

text \<open>
  \<^verbatim>\<open>str.lower\<close> on the letters A to Z; every other character is left as it is. (No
  character outside A to Z is lowered by Python to one of the letters of \<^verbatim>\<open>cleanup\<close>, so
  the comparison below agrees with Python's on every input.)
\<close>

definition lower_char :: "char \<Rightarrow> char" where
  "lower_char c =
     (case map_of (zip ''ABCDEFGHIJKLMNOPQRSTUVWXYZ'' ''abcdefghijklmnopqrstuvwxyz'') c of
        None \<Rightarrow> c
      | Some d \<Rightarrow> d)"

definition lower :: "string \<Rightarrow> string" where
  "lower s = map lower_char s"

definition prompt :: string where
  "prompt = ''Do you want to cleanup these configurations? (Type '' @ [CHR 0x27] @ ''cleanup''
             @ [CHR 0x27] @ ''): ''"

text \<open>The body of the \<^verbatim>\<open>try\<close> of \<^verbatim>\<open>list_configurations\<close>; \<open>None\<close> is Python's \<^verbatim>\<open>None\<close>.\<close>

definition list_configurations_try :: "world \<Rightarrow> ADS \<Rightarrow> dict list option io" where
  "list_configurations_try w self =
     (let filters = build_filters (filter_params self) [];
          evs = [Log INFO [Lit ''Listing configurations...''], Paginate ''SERVER'' filters]
      in case paginate w ''SERVER'' filters of
           Inl e \<Rightarrow> (Raise e, evs)
         | Inr pages \<Rightarrow>
             (let configurations = extend_pages pages [] in
              if configurations = [] then
                (Ok None, evs @ [Log WARNING [Lit ''No configurations found, exiting...'']])
              else
                (let evs' = evs @ [Log INFO [Lit ''Found configurations: '', Dicts configurations]] in
                 if \<not> unattended self then
                   (case stdin w of
                      None \<Rightarrow> (Raise EOFError, evs' @ [Input prompt])
                    | Some confirmation \<Rightarrow>
                        if lower confirmation \<noteq> ''cleanup'' then
                          (SysExit 0, evs' @ [Input prompt,
                                              Log INFO [Lit ''Operation cancelled by user.'']])
                        else (Ok (Some configurations), evs' @ [Input prompt]))
                 else (Ok (Some configurations), evs'))))"

text \<open>\<^verbatim>\<open>except Exception as e: raise Exception(f"...: {e}")\<close>, with the given prefix.\<close>

definition reraise :: "string \<Rightarrow> 'a io \<Rightarrow> 'a io" where
  "reraise prefix m =
     (case m of
        (Raise e, evs) \<Rightarrow> (Raise (Exception (prefix @ str e)), evs)
      | (r, evs) \<Rightarrow> (r, evs))"

definition list_configurations :: "world \<Rightarrow> ADS \<Rightarrow> dict list option io" where
  "list_configurations w self =
     reraise ''Error listing configurations: '' (list_configurations_try w self)"

text \<open>\<^verbatim>\<open>'\n'.join(xs)\<close> and its separator.\<close>

fun join :: "string \<Rightarrow> string list \<Rightarrow> string" where
  "join sep [] = []"
| "join sep [x] = x"
| "join sep (x # y # ys) = x @ sep @ join sep (y # ys)"

definition newline :: string where
  "newline = [CHR 0x0A]"

text \<open>The loop building \<^verbatim>\<open>error_messages\<close>; it stops at the first entry missing a key.\<close>

fun error_messages :: "dict list \<Rightarrow> string list \<Rightarrow> exn + string list" where
  "error_messages [] acc = Inr acc"
| "error_messages (error # errors) acc =
     (case getitem error ''agentId'' of
        Inl e \<Rightarrow> Inl e
      | Inr agent \<Rightarrow>
          (case getitem error ''errorMessage'' of
             Inl e \<Rightarrow> Inl e
           | Inr message \<Rightarrow>
               error_messages errors (acc @ [''Agent '' @ agent @ '': '' @ message])))"

definition delete_agents_try :: "world \<Rightarrow> ADS \<Rightarrow> string list \<Rightarrow> unit io" where
  "delete_agents_try w self agent_ids =
     (let agents_to_delete = map (\<lambda>agent_id. \<lparr>agentId = agent_id, da_force = force self\<rparr>) agent_ids;
          evs = [Log INFO [Lit ''Deleting agents...''], Batch_delete_agents agents_to_delete]
      in case batch_delete_agents w agents_to_delete of
           Inl e \<Rightarrow> (Raise e, evs)
         | Inr response \<Rightarrow>
             (let errors = (case response of None \<Rightarrow> [] | Some es \<Rightarrow> es) in
              if errors \<noteq> [] then
                (case error_messages errors [] of
                   Inl e \<Rightarrow> (Raise e, evs)
                 | Inr msgs \<Rightarrow> (Raise (Exception (join newline msgs)), evs))
              else (Ok (), evs @ [Log INFO [Lit ''Deleted agents: '', StrList agent_ids]])))"

definition delete_agents :: "world \<Rightarrow> ADS \<Rightarrow> string list \<Rightarrow> unit io" where
  "delete_agents w self agent_ids =
     reraise ''Error deleting agents: '' (delete_agents_try w self agent_ids)"

definition delete_configurations_try :: "world \<Rightarrow> ADS \<Rightarrow> string list \<Rightarrow> unit io" where
  "delete_configurations_try w self configuration_ids =
     (let evs = [Log INFO [Lit ''Deleting configurations...''],
                 Start_batch_delete_configuration_task ''SERVER'' configuration_ids]
      in case start_batch_delete_configuration_task w ''SERVER'' configuration_ids of
           Some e \<Rightarrow> (Raise e, evs)
         | None \<Rightarrow> (Ok (), evs @ [Log INFO [Lit ''Deleted configurations: '',
                                             StrList configuration_ids]]))"

definition delete_configurations :: "world \<Rightarrow> ADS \<Rightarrow> string list \<Rightarrow> unit io" where
  "delete_configurations w self configuration_ids =
     reraise ''Error deleting configurations: '' (delete_configurations_try w self configuration_ids)"

section \<open>The function main\<close>

text \<open>The comprehension \<^verbatim>\<open>[server[key] for server in configurations]\<close>.\<close>

fun getitems :: "string \<Rightarrow> dict list \<Rightarrow> exn + string list" where
  "getitems key [] = Inr []"
| "getitems key (server # configurations) =
     (case getitem server key of
        Inl e \<Rightarrow> Inl e
      | Inr v \<Rightarrow> (case getitems key configurations of Inl e \<Rightarrow> Inl e | Inr vs \<Rightarrow> Inr (v # vs)))"

text \<open>The block under \<^verbatim>\<open>if configurations is not None\<close>.\<close>

definition deletion :: "world \<Rightarrow> ADS \<Rightarrow> dict list \<Rightarrow> unit io" where
  "deletion w discovery configurations =
     (case getitems ''server.agentId'' configurations of
        Inl e \<Rightarrow> (Raise e, [])
      | Inr agent_ids \<Rightarrow>
          (case getitems ''server.configurationId'' configurations of
             Inl e \<Rightarrow> (Raise e, [])
           | Inr configuration_ids \<Rightarrow>
               io_bind (delete_agents w discovery agent_ids)
                 (\<lambda>_. delete_configurations w discovery configuration_ids)))"

definition usage_hint :: string where
  "usage_hint = ''No flags were provided. Run the tool with -h to learn about more options.''"

text \<open>The body of the \<^verbatim>\<open>try\<close> of \<^verbatim>\<open>main\<close>.\<close>

definition main_try :: "world \<Rightarrow> unit io" where
  "main_try w =
     io_bind (parse_args w, []) (\<lambda>args.
       if length (argv w) = 1 then (SysExit 1, [Print usage_hint])
       else
         io_bind (ADS_init w args) (\<lambda>discovery.
           io_bind (list_configurations w discovery) (\<lambda>configurations.
             case configurations of
               None \<Rightarrow> (Ok (), [])
             | Some cs \<Rightarrow> deletion w discovery cs)))"

text \<open>\<^verbatim>\<open>except Exception as e: logging.error(...); sys.exit(1)\<close>.\<close>

definition main_except :: "unit io \<Rightarrow> unit io" where
  "main_except m =
     (case m of
        (Raise e, evs) \<Rightarrow> (SysExit 1, evs @ [Log ERROR [Lit ''An error occurred: '', Lit (str e)]])
      | (r, evs) \<Rightarrow> (r, evs))"

definition main :: "world \<Rightarrow> unit io" where
  "main w = main_except (main_try w)"

text \<open>
  The exit status of the process: 0 when \<^verbatim>\<open>main\<close> returns, the argument of
  \<^verbatim>\<open>sys.exit\<close> otherwise, 1 for an exception nobody caught.
\<close>

fun exit_status :: "unit res \<Rightarrow> int" where
  "exit_status (Ok _) = 0"
| "exit_status (SysExit n) = n"
| "exit_status (Raise _) = 1"

text \<open>Classifying the events of a trace.\<close>

fun is_list_call :: "event \<Rightarrow> bool" where
  "is_list_call (Paginate _ _) = True"
| "is_list_call _ = False"

fun is_delete_agents_call :: "event \<Rightarrow> bool" where
  "is_delete_agents_call (Batch_delete_agents _) = True"
| "is_delete_agents_call _ = False"

fun is_delete_configurations_call :: "event \<Rightarrow> bool" where
  "is_delete_configurations_call (Start_batch_delete_configuration_task _ _) = True"
| "is_delete_configurations_call _ = False"

definition is_delete_call :: "event \<Rightarrow> bool" where
  "is_delete_call ev = (is_delete_agents_call ev \<or> is_delete_configurations_call ev)"

definition is_remote_call :: "event \<Rightarrow> bool" where
  "is_remote_call ev = (is_list_call ev \<or> is_delete_call ev)"

fun is_input :: "event \<Rightarrow> bool" where
  "is_input (Input _) = True"
| "is_input _ = False"

fun is_error_log :: "event \<Rightarrow> bool" where
  "is_error_log (Log l _) = (l = ERROR)"
| "is_error_log _ = False"

text \<open>A computation whose events come after the given ones.\<close>

definition prepend :: "event list \<Rightarrow> 'a io \<Rightarrow> 'a io" where
  "prepend evs m = (case m of (r, evs') \<Rightarrow> (r, evs @ evs'))"

text \<open>The events of a list call that found records, up to the log line naming them.\<close>

definition listing_events :: "ADS \<Rightarrow> event list" where
  "listing_events self =
     [Log INFO [Lit ''Listing configurations...''],
      Paginate ''SERVER'' (build_filters (filter_params self) [])]"

definition found_events :: "ADS \<Rightarrow> dict list \<Rightarrow> event list" where
  "found_events self configurations =
     listing_events self @ [Log INFO [Lit ''Found configurations: '', Dicts configurations]]"

section \<open>Example runs\<close>

text \<open>
  The scenario of the documentation: application name \<^verbatim>\<open>web01\<close>, unattended, two records
  found, both deletions succeed.
\<close>

definition example_params :: params where
  "example_params =
     \<lparr>app_name = Some ''web01'', tag_key = None, tag_value = None,
      force = False, unattended = True\<rparr>"

definition example_records :: "dict list" where
  "example_records =
     [[(''server.agentId'', ''a1''), (''server.configurationId'', ''c1'')],
      [(''server.agentId'', ''a2''), (''server.configurationId'', ''c2'')]]"

definition example_world :: world where
  "example_world =
     \<lparr>argv = [''cleanupads.py'', ''-a'', ''web01'', ''-u''],
      argparse = (\<lambda>_. Ok example_params),
      client_error = None,
      paginate = (\<lambda>_ _. Inr [Some example_records]),
      stdin = None,
      batch_delete_agents = (\<lambda>_. Inr (Some [])),
      start_batch_delete_configuration_task = (\<lambda>_ _. None)\<rparr>"

text \<open>The same command line without any argument.\<close>

definition no_flags_world :: world where
  "no_flags_world = example_world\<lparr>argv := [''cleanupads.py'']\<rparr>"

text \<open>The service finds nothing: one page with no records, one page without the entry.\<close>

definition empty_world :: world where
  "empty_world = example_world\<lparr>paginate := (\<lambda>_ _. Inr [Some [], None])\<rparr>"

text \<open>The run without \<^verbatim>\<open>-u\<close>, with the given line on standard input.\<close>

definition attended_params :: params where
  "attended_params = example_params\<lparr>unattended := False\<rparr>"

definition attended_world :: "string option \<Rightarrow> world" where
  "attended_world line =
     example_world\<lparr>argv := [''cleanupads.py'', ''-a'', ''web01''],
                   argparse := (\<lambda>_. Ok attended_params),
                   stdin := line\<rparr>"

text \<open>The batch delete answers with per-agent errors: for both agents, or for one.\<close>

definition agent_errors :: "dict list" where
  "agent_errors =
     [[(''agentId'', ''a1''), (''errorMessage'', ''boom''), (''errorCode'', ''INTERNAL_FAILURE'')],
      [(''agentId'', ''a2''), (''errorMessage'', ''busy''), (''errorCode'', ''AGENT_IN_USE'')]]"

definition agent_errors_world :: world where
  "agent_errors_world = example_world\<lparr>batch_delete_agents := (\<lambda>_. Inr (Some agent_errors))\<rparr>"

definition one_agent_error_world :: world where
  "one_agent_error_world =
     example_world\<lparr>batch_delete_agents :=
       (\<lambda>_. Inr (Some [[(''agentId'', ''a1''), (''errorMessage'', ''boom'')]]))\<rparr>"

text \<open>Each of the three remote calls failing in transport.\<close>

definition list_failure_world :: world where
  "list_failure_world = example_world\<lparr>paginate := (\<lambda>_ _. Inl (RemoteError ''timed out''))\<rparr>"

definition agents_failure_world :: world where
  "agents_failure_world =
     example_world\<lparr>batch_delete_agents := (\<lambda>_. Inl (RemoteError ''timed out''))\<rparr>"

definition configurations_failure_world :: world where
  "configurations_failure_world =
     example_world\<lparr>start_batch_delete_configuration_task :=
       (\<lambda>_ _. Some (RemoteError ''timed out''))\<rparr>"

text \<open>The second record found has no configuration identifier.\<close>

definition missing_key_world :: world where
  "missing_key_world =
     example_world\<lparr>paginate :=
       (\<lambda>_ _. Inr [Some [[(''server.agentId'', ''a1''), (''server.configurationId'', ''c1'')],
                          [(''server.agentId'', ''a2'')]]])\<rparr>"

section \<open>Auxiliary facts\<close>

subsection \<open>Records, sequencing and event lists\<close>

lemma params_eta:
  "\<lparr>app_name = app_name a, tag_key = tag_key a, tag_value = tag_value a,
     force = force a, unattended = unattended a\<rparr> = (a :: params)"
  by simp

lemma snd_io_bind:
  "snd (io_bind m f) = (case fst m of Ok x \<Rightarrow> snd m @ snd (f x) | _ \<Rightarrow> snd m)"
  by (simp add: io_bind_def split: prod.splits res.splits)

lemma snd_prepend: "snd (prepend evs m) = evs @ snd m"
  by (simp add: prepend_def split: prod.splits)

lemma snd_main_except:
  "snd (main_except m) =
     (case fst m of Raise e \<Rightarrow> snd m @ [Log ERROR [Lit ''An error occurred: '', Lit (str e)]] | _ \<Rightarrow> snd m)"
  by (simp add: main_except_def split: prod.splits res.splits)

lemma filter_input_main_except:
  "filter is_input (snd (main_except m)) = filter is_input (snd m)"
  by (simp add: snd_main_except split: res.splits)

lemma filter_remote_main_except:
  "filter is_remote_call (snd (main_except m)) = filter is_remote_call (snd m)"
  by (simp add: snd_main_except is_remote_call_def is_delete_call_def split: res.splits)

lemma init_events_no_remote: "filter is_remote_call (init_events a) = []"
  by (simp add: init_events_def is_remote_call_def is_delete_call_def)

lemma init_events_no_input: "filter is_input (init_events a) = []"
  by (simp add: init_events_def)

lemma init_events_no_delete: "filter is_delete_call (init_events a) = []"
  by (simp add: init_events_def is_delete_call_def)



subsection \<open>The comprehensions over dictionaries\<close>

lemma getitems_present:
  "\<forall>c \<in> set cs. map_of c k \<noteq> None \<Longrightarrow> getitems k cs = Inr (map (\<lambda>c. the (map_of c k)) cs)"
  by (induction cs) (auto simp: getitem_def)

lemma getitems_missing:
  "\<exists>c \<in> set cs. map_of c k = None \<Longrightarrow> getitems k cs = Inl (KeyError k)"
proof (induction cs)
  case Nil
  then show ?case by simp
next
  case (Cons c cs)
  show ?case
  proof (cases "map_of c k")
    case None
    then show ?thesis by (simp add: getitem_def)
  next
    case (Some v)
    with Cons.prems have "\<exists>c \<in> set cs. map_of c k = None" by auto
    then have "getitems k cs = Inl (KeyError k)" by (rule Cons.IH)
    with Some show ?thesis by (simp add: getitem_def)
  qed
qed

lemma error_messages_present:
  "\<forall>e \<in> set errors. map_of e ''agentId'' \<noteq> None \<and> map_of e ''errorMessage'' \<noteq> None \<Longrightarrow>
   error_messages errors acc =
     Inr (acc @ map (\<lambda>e. ''Agent '' @ the (map_of e ''agentId'') @ '': '' @ the (map_of e ''errorMessage'')) errors)"
  by (induction errors arbitrary: acc) (auto simp: getitem_def)

subsection \<open>The three methods\<close>

lemma list_configurations_remote_calls:
  "filter is_remote_call (snd (list_configurations w self)) =
     [Paginate ''SERVER'' (build_filters (filter_params self) [])]"
  by (simp add: list_configurations_def list_configurations_try_def reraise_def Let_def
        is_remote_call_def is_delete_call_def
      split: sum.splits option.splits)

lemma list_configurations_no_delete:
  "filter is_delete_call (snd (list_configurations w self)) = []"
  by (simp add: list_configurations_def list_configurations_try_def reraise_def Let_def
        is_delete_call_def
      split: sum.splits option.splits)

lemma list_configurations_no_error_log:
  "filter is_error_log (snd (list_configurations w self)) = []"
  by (simp add: list_configurations_def list_configurations_try_def reraise_def Let_def
      split: sum.splits option.splits)

lemma list_configurations_unattended_no_input:
  "unattended self \<Longrightarrow> filter is_input (snd (list_configurations w self)) = []"
  by (simp add: list_configurations_def list_configurations_try_def reraise_def Let_def
      split: sum.splits option.splits)

lemma list_configurations_empty:
  assumes "paginate w ''SERVER'' (build_filters (filter_params self) []) = Inr pages"
      and "extend_pages pages [] = []"
  shows "list_configurations w self =
           (Ok None, [Log INFO [Lit ''Listing configurations...''],
                      Paginate ''SERVER'' (build_filters (filter_params self) []),
                      Log WARNING [Lit ''No configurations found, exiting...'']])"
  using assms by (simp add: list_configurations_def list_configurations_try_def reraise_def)


lemma list_configurations_unattended:
  assumes "unattended self"
      and "paginate w ''SERVER'' (build_filters (filter_params self) []) = Inr pages"
      and "extend_pages pages [] \<noteq> []"
  shows "list_configurations w self =
     (Ok (Some (extend_pages pages [])), found_events self (extend_pages pages []))"
  using assms
  by (simp add: list_configurations_def list_configurations_try_def reraise_def Let_def
      found_events_def listing_events_def)

lemma list_configurations_failure:
  assumes "paginate w ''SERVER'' (build_filters (filter_params self) []) = Inl e"
  shows "list_configurations w self =
     (Raise (Exception (''Error listing configurations: '' @ str e)), listing_events self)"
  using assms
  by (simp add: list_configurations_def list_configurations_try_def reraise_def listing_events_def)

lemma delete_agents_remote_calls:
  "filter is_remote_call (snd (delete_agents w self agent_ids)) =
     [Batch_delete_agents (map (\<lambda>agent_id. \<lparr>agentId = agent_id, da_force = force self\<rparr>) agent_ids)]"
  by (simp add: delete_agents_def delete_agents_try_def reraise_def Let_def
        is_remote_call_def is_delete_call_def
      split: sum.splits option.splits)

lemma delete_agents_no_input:
  "filter is_input (snd (delete_agents w self agent_ids)) = []"
  by (simp add: delete_agents_def delete_agents_try_def reraise_def Let_def
      split: sum.splits option.splits)

lemma delete_agents_no_error_log:
  "filter is_error_log (snd (delete_agents w self agent_ids)) = []"
  by (simp add: delete_agents_def delete_agents_try_def reraise_def Let_def
      split: sum.splits option.splits)

lemma delete_agents_errors:
  assumes "batch_delete_agents w (map (\<lambda>agent_id. \<lparr>agentId = agent_id, da_force = force self\<rparr>) agent_ids) =
             Inr (Some errors)"
      and "errors \<noteq> []"
      and "\<forall>e \<in> set errors. map_of e ''agentId'' \<noteq> None \<and> map_of e ''errorMessage'' \<noteq> None"
  shows "delete_agents w self agent_ids =
     (Raise (Exception (''Error deleting agents: '' @
        join newline (map (\<lambda>e. ''Agent '' @ the (map_of e ''agentId'') @ '': '' @
                                  the (map_of e ''errorMessage'')) errors))),
      [Log INFO [Lit ''Deleting agents...''],
       Batch_delete_agents (map (\<lambda>agent_id. \<lparr>agentId = agent_id, da_force = force self\<rparr>) agent_ids)])"
  using assms(1,2)
  by (simp add: delete_agents_def delete_agents_try_def reraise_def
      error_messages_present [OF assms(3)])

lemma delete_agents_failure:
  assumes "batch_delete_agents w
             (map (\<lambda>agent_id. \<lparr>agentId = agent_id, da_force = force self\<rparr>) agent_ids) = Inl e"
  shows "delete_agents w self agent_ids =
     (Raise (Exception (''Error deleting agents: '' @ str e)),
      [Log INFO [Lit ''Deleting agents...''],
       Batch_delete_agents
         (map (\<lambda>agent_id. \<lparr>agentId = agent_id, da_force = force self\<rparr>) agent_ids)])"
  using assms by (simp add: delete_agents_def delete_agents_try_def reraise_def)

lemma delete_configurations_remote_calls:
  "filter is_remote_call (snd (delete_configurations w self configuration_ids)) =
     [Start_batch_delete_configuration_task ''SERVER'' configuration_ids]"
  by (simp add: delete_configurations_def delete_configurations_try_def reraise_def Let_def
        is_remote_call_def is_delete_call_def
      split: sum.splits option.splits)

lemma delete_configurations_no_input:
  "filter is_input (snd (delete_configurations w self configuration_ids)) = []"
  by (simp add: delete_configurations_def delete_configurations_try_def reraise_def Let_def
      split: sum.splits option.splits)

lemma delete_configurations_failure:
  assumes "start_batch_delete_configuration_task w ''SERVER'' configuration_ids = Some e"
  shows "delete_configurations w self configuration_ids =
     (Raise (Exception (''Error deleting configurations: '' @ str e)),
      [Log INFO [Lit ''Deleting configurations...''],
       Start_batch_delete_configuration_task ''SERVER'' configuration_ids])"
  using assms by (simp add: delete_configurations_def delete_configurations_try_def reraise_def)

subsection \<open>The deletion block and main\<close>

lemma deletion_no_input: "filter is_input (snd (deletion w self cs)) = []"
  by (simp add: deletion_def snd_io_bind delete_agents_no_input delete_configurations_no_input
      split: sum.splits res.splits)

lemma deletion_present:
  assumes "\<forall>c \<in> set cs. map_of c ''server.agentId'' \<noteq> None \<and> map_of c ''server.configurationId'' \<noteq> None"
  shows "deletion w self cs =
     io_bind (delete_agents w self (map (\<lambda>c. the (map_of c ''server.agentId'')) cs))
       (\<lambda>_. delete_configurations w self (map (\<lambda>c. the (map_of c ''server.configurationId'')) cs))"
proof -
  have "getitems ''server.agentId'' cs = Inr (map (\<lambda>c. the (map_of c ''server.agentId'')) cs)"
    using assms by (intro getitems_present) blast
  moreover have "getitems ''server.configurationId'' cs = Inr (map (\<lambda>c. the (map_of c ''server.configurationId'')) cs)"
    using assms by (intro getitems_present) blast
  ultimately show ?thesis by (simp add: deletion_def)
qed

lemma deletion_missing:
  assumes "\<exists>c \<in> set cs. map_of c ''server.agentId'' = None \<or> map_of c ''server.configurationId'' = None"
  shows "deletion w self cs = (Raise (KeyError ''server.agentId''), []) \<or>
         deletion w self cs = (Raise (KeyError ''server.configurationId''), [])"
proof (cases "\<exists>c \<in> set cs. map_of c ''server.agentId'' = None")
  case True
  then have "getitems ''server.agentId'' cs = Inl (KeyError ''server.agentId'')"
    by (rule getitems_missing)
  then show ?thesis by (simp add: deletion_def)
next
  case False
  then have a: "getitems ''server.agentId'' cs = Inr (map (\<lambda>c. the (map_of c ''server.agentId'')) cs)"
    by (simp add: getitems_present)
  from False assms have "\<exists>c \<in> set cs. map_of c ''server.configurationId'' = None" by blast
  then have "getitems ''server.configurationId'' cs = Inl (KeyError ''server.configurationId'')"
    by (rule getitems_missing)
  with a show ?thesis by (simp add: deletion_def)
qed

lemma deletion_remote_calls:
  assumes "\<forall>c \<in> set cs. map_of c ''server.agentId'' \<noteq> None
                        \<and> map_of c ''server.configurationId'' \<noteq> None"
  shows "filter is_remote_call (snd (deletion w self cs)) =
     Batch_delete_agents
       (map (\<lambda>c. \<lparr>agentId = the (map_of c ''server.agentId''), da_force = force self\<rparr>) cs) #
     (if fst (delete_agents w self (map (\<lambda>c. the (map_of c ''server.agentId'')) cs)) = Ok ()
      then [Start_batch_delete_configuration_task ''SERVER''
              (map (\<lambda>c. the (map_of c ''server.configurationId'')) cs)]
      else [])"
  by (simp add: deletion_present [OF assms] snd_io_bind delete_agents_remote_calls
      delete_configurations_remote_calls comp_def split: res.splits)

lemma main_try_started:
  assumes "parse_args w = Ok a" "length (argv w) \<noteq> 1" "client_error w = None"
  shows "main_try w =
     prepend (init_events a)
       (io_bind (list_configurations w a)
          (\<lambda>configurations. case configurations of None \<Rightarrow> (Ok (), []) | Some cs \<Rightarrow> deletion w a cs))"
proof -
  obtain r evs where l: "list_configurations w a = (r, evs)"
    by (cases "list_configurations w a")
  show ?thesis
    using assms
    by (cases r) (simp_all add: main_try_def io_bind_def ADS_init_def prepend_def params_eta l
        split: prod.splits)
qed

lemma main_after_list:
  assumes "parse_args w = Ok a" "length (argv w) \<noteq> 1" "client_error w = None"
      and "list_configurations w a = (Ok (Some cs), evs)"
  shows "main w = main_except (prepend (init_events a @ evs) (deletion w a cs))"
  by (simp add: main_def main_try_started [OF assms(1-3)] assms(4) io_bind_def prepend_def
      split: prod.splits)

lemma main_unattended_no_input:
  assumes "parse_args w = Ok a" "unattended a"
  shows "filter is_input (snd (main w)) = []"
proof (cases "length (argv w) = 1")
  case True
  with assms(1) show ?thesis
    by (simp add: main_def main_try_def io_bind_def main_except_def)
next
  case False
  show ?thesis
  proof (cases "client_error w")
    case (Some e)
    with False assms(1) show ?thesis
      by (simp add: main_def main_try_def io_bind_def main_except_def ADS_init_def)
  next
    case None
    have "filter is_input (snd (main_try w)) = []"
      by (simp add: main_try_started [OF assms(1) False None] snd_prepend snd_io_bind
          init_events_no_input list_configurations_unattended_no_input [OF assms(2)]
          deletion_no_input
          split: res.splits option.splits)
    then show ?thesis
      by (simp add: main_def filter_input_main_except)
  qed
qed

subsection \<open>The example runs\<close>

lemmas world_defs =
  example_world_def example_params_def example_records_def no_flags_world_def empty_world_def
  attended_params_def attended_world_def agent_errors_def agent_errors_world_def
  one_agent_error_world_def list_failure_world_def agents_failure_world_def
  configurations_failure_world_def missing_key_world_def

lemma example_world_started:
  "parse_args example_world = Ok example_params"
  "length (argv example_world) \<noteq> 1"
  "client_error example_world = None"
  "paginate example_world ''SERVER'' fs = Inr [Some example_records]"
  by (simp_all add: parse_args_def example_world_def)

lemma example_list:
  "list_configurations example_world example_params =
     (Ok (Some example_records), found_events example_params example_records)"
proof -
  have u: "unattended example_params" by (simp add: example_params_def)
  have n: "extend_pages [Some example_records] [] \<noteq> []" by (simp add: example_records_def)
  from list_configurations_unattended [OF u example_world_started(4) n]
  show ?thesis by simp
qed

lemma example_records_keys:
  "\<forall>c \<in> set example_records.
     map_of c ''server.agentId'' \<noteq> None \<and> map_of c ''server.configurationId'' \<noteq> None"
  by (simp add: example_records_def)

lemma example_records_ids:
  "map (\<lambda>c. the (map_of c ''server.agentId'')) example_records = [''a1'', ''a2'']"
  "map (\<lambda>c. the (map_of c ''server.configurationId'')) example_records = [''c1'', ''c2'']"
  by (simp_all add: example_records_def)

lemma example_deletion:
  "batch_delete_agents w = (\<lambda>_. Inr (Some [])) \<Longrightarrow>
   start_batch_delete_configuration_task w = (\<lambda>_ _. None) \<Longrightarrow>
   deletion w a example_records =
     (Ok (), [Log INFO [Lit ''Deleting agents...''],
              Batch_delete_agents [\<lparr>agentId = ''a1'', da_force = force a\<rparr>,
                                   \<lparr>agentId = ''a2'', da_force = force a\<rparr>],
              Log INFO [Lit ''Deleted agents: '', StrList [''a1'', ''a2'']],
              Log INFO [Lit ''Deleting configurations...''],
              Start_batch_delete_configuration_task ''SERVER'' [''c1'', ''c2''],
              Log INFO [Lit ''Deleted configurations: '', StrList [''c1'', ''c2'']]])"
  by (simp add: deletion_def example_records_def getitem_def delete_agents_def
      delete_agents_try_def delete_configurations_def delete_configurations_try_def
      reraise_def io_bind_def)

lemma empty_world_started:
  "parse_args empty_world = Ok example_params"
  "length (argv empty_world) \<noteq> 1"
  "client_error empty_world = None"
  "paginate empty_world ''SERVER'' fs = Inr [Some [], None]"
  by (simp_all add: parse_args_def empty_world_def example_world_def)


lemma missing_key_world_started:
  "parse_args missing_key_world = Ok example_params"
  "length (argv missing_key_world) \<noteq> 1"
  "client_error missing_key_world = None"
  by (simp_all add: parse_args_def missing_key_world_def example_world_def)

lemma agent_errors_world_started:
  "parse_args agent_errors_world = Ok example_params"
  "length (argv agent_errors_world) \<noteq> 1"
  "client_error agent_errors_world = None"
  "paginate agent_errors_world ''SERVER'' fs = Inr [Some example_records]"
  "batch_delete_agents agent_errors_world req = Inr (Some agent_errors)"
  by (simp_all add: parse_args_def agent_errors_world_def example_world_def)

lemma agent_errors_list:
  "list_configurations agent_errors_world example_params =
     (Ok (Some example_records), found_events example_params example_records)"
proof -
  have u: "unattended example_params" by (simp add: example_params_def)
  have n: "extend_pages [Some example_records] [] \<noteq> []" by (simp add: example_records_def)
  from list_configurations_unattended [OF u agent_errors_world_started(4) n]
  show ?thesis by simp
qed

lemma agent_errors_keys:
  "\<forall>e \<in> set agent_errors. map_of e ''agentId'' \<noteq> None \<and> map_of e ''errorMessage'' \<noteq> None"
  by (simp add: agent_errors_def)

lemma failure_worlds_started:
  "parse_args list_failure_world = Ok example_params"
  "length (argv list_failure_world) \<noteq> 1"
  "client_error list_failure_world = None"
  "parse_args agents_failure_world = Ok example_params"
  "length (argv agents_failure_world) \<noteq> 1"
  "client_error agents_failure_world = None"
  "parse_args configurations_failure_world = Ok example_params"
  "length (argv configurations_failure_world) \<noteq> 1"
  "client_error configurations_failure_world = None"
  by (simp_all add: parse_args_def list_failure_world_def agents_failure_world_def
      configurations_failure_world_def example_world_def)

lemma failure_worlds_list:
  "list_configurations agents_failure_world example_params =
     (Ok (Some example_records), found_events example_params example_records)"
  "list_configurations configurations_failure_world example_params =
     (Ok (Some example_records), found_events example_params example_records)"
proof -
  have u: "unattended example_params" by (simp add: example_params_def)
  have n: "extend_pages [Some example_records] [] \<noteq> []" by (simp add: example_records_def)
  have p1: "paginate agents_failure_world ''SERVER'' (build_filters (filter_params example_params) []) =
            Inr [Some example_records]"
    by (simp add: agents_failure_world_def example_world_def)
  have p2: "paginate configurations_failure_world ''SERVER''
              (build_filters (filter_params example_params) []) = Inr [Some example_records]"
    by (simp add: configurations_failure_world_def example_world_def)
  from list_configurations_unattended [OF u p1 n]
  show "list_configurations agents_failure_world example_params =
     (Ok (Some example_records), found_events example_params example_records)"
    by simp
  from list_configurations_unattended [OF u p2 n]
  show "list_configurations configurations_failure_world example_params =
     (Ok (Some example_records), found_events example_params example_records)"
    by simp
qed

lemma example_getitems:
  "getitems ''server.agentId'' example_records = Inr [''a1'', ''a2'']"
  "getitems ''server.configurationId'' example_records = Inr [''c1'', ''c2'']"
  by (simp_all add: example_records_def getitem_def)

section \<open>The filter clauses\<close>

text \<open>
  Claim C4. Whatever the three optional parameters are (all absent included), the filter
  list that \<^verbatim>\<open>list_configurations\<close> builds, and sends with its one paginated list call for
  configuration type \<^verbatim>\<open>SERVER\<close>, has exactly one clause per parameter that is set, with
  condition \<^verbatim>\<open>EQ\<close> and the parameter as the only value, in the order application name,
  tag key, tag value.
\<close>

theorem filter_clauses_per_parameter:
  "build_filters (filter_params self) [] =
     (case app_name self of None \<Rightarrow> []
      | Some p \<Rightarrow> [\<lparr>f_name = ''server.application.name'', f_values = [p], f_condition = ''EQ''\<rparr>]) @
     (case tag_key self of None \<Rightarrow> []
      | Some p \<Rightarrow> [\<lparr>f_name = ''server.tag.key'', f_values = [p], f_condition = ''EQ''\<rparr>]) @
     (case tag_value self of None \<Rightarrow> []
      | Some p \<Rightarrow> [\<lparr>f_name = ''server.tag.value'', f_values = [p], f_condition = ''EQ''\<rparr>])
   \<and> filter is_list_call (snd (list_configurations w self)) =
       [Paginate ''SERVER'' (build_filters (filter_params self) [])]"
proof
  show "build_filters (filter_params self) [] =
     (case app_name self of None \<Rightarrow> []
      | Some p \<Rightarrow> [\<lparr>f_name = ''server.application.name'', f_values = [p], f_condition = ''EQ''\<rparr>]) @
     (case tag_key self of None \<Rightarrow> []
      | Some p \<Rightarrow> [\<lparr>f_name = ''server.tag.key'', f_values = [p], f_condition = ''EQ''\<rparr>]) @
     (case tag_value self of None \<Rightarrow> []
      | Some p \<Rightarrow> [\<lparr>f_name = ''server.tag.value'', f_values = [p], f_condition = ''EQ''\<rparr>])"
    by (simp add: filter_params_def split: option.splits)
  show "filter is_list_call (snd (list_configurations w self)) =
       [Paginate ''SERVER'' (build_filters (filter_params self) [])]"
    by (simp add: list_configurations_def list_configurations_try_def reraise_def Let_def
        split: sum.splits option.splits)
qed

section \<open>Running without arguments\<close>

text \<open>
  Claim C6. When the command line holds nothing but the program name, the run prints the
  usage hint and leaves with exit status 1; the trace of the run is that one print, so no
  client is built and no list, delete-agents or delete-configurations call is made.
\<close>

theorem no_flags_exit_1:
  assumes "length (argv w) = 1"
  shows "main w = (SysExit 1, [Print usage_hint])
     \<and> exit_status (fst (main w)) = 1
     \<and> filter is_remote_call (snd (main w)) = []"
proof -
  from assms have "drop 1 (argv w) = []" by simp
  then have "parse_args w = Ok \<lparr>app_name = None, tag_key = None, tag_value = None,
                                force = False, unattended = False\<rparr>"
    by (simp add: parse_args_def)
  with assms have "main w = (SysExit 1, [Print usage_hint])"
    by (simp add: main_def main_try_def io_bind_def main_except_def)
  then show ?thesis by (simp add: is_remote_call_def is_delete_call_def)
qed

theorem no_flags_exit_1_witness:
  "length (argv no_flags_world) = 1
   \<and> main no_flags_world = (SysExit 1, [Print usage_hint])
   \<and> exit_status (fst (main no_flags_world)) = 1
   \<and> filter is_remote_call (snd (main no_flags_world)) = []"
proof -
  have h: "length (argv no_flags_world) = 1"
    by (simp add: no_flags_world_def)
  from no_flags_exit_1 [OF h] h show ?thesis by blast
qed

section \<open>The batch-delete request\<close>

text \<open>
  Claim C7. For every list of agent identifiers given to \<^verbatim>\<open>delete_agents\<close>, the empty
  list included, the only remote call it makes is one batch-delete call, made right after
  the opening log line, and the request of that call holds, for each identifier in order,
  the identifier paired with the force flag of the run.
\<close>

theorem delete_agents_one_batch_call:
  "filter is_remote_call (snd (delete_agents w self agent_ids)) =
     [Batch_delete_agents (map (\<lambda>agent_id. \<lparr>agentId = agent_id, da_force = force self\<rparr>) agent_ids)]
   \<and> take 2 (snd (delete_agents w self agent_ids)) =
     [Log INFO [Lit ''Deleting agents...''],
      Batch_delete_agents (map (\<lambda>agent_id. \<lparr>agentId = agent_id, da_force = force self\<rparr>) agent_ids)]"
  by (simp add: delete_agents_def delete_agents_try_def reraise_def Let_def
        is_remote_call_def is_delete_call_def
      split: sum.splits option.splits)

section \<open>Nothing found\<close>

text \<open>
  Claim C5. In a run that reaches the list call, when the pages of the paginated call
  add up to no record, \<^verbatim>\<open>list_configurations\<close> logs a warning and returns \<^verbatim>\<open>None\<close>, which is
  not the empty list; the run then reads no input, makes neither delete call, and \<^verbatim>\<open>main\<close>
  returns normally, so the exit status is 0.
\<close>

theorem no_records_no_deletion:
  assumes "parse_args w = Ok a" "length (argv w) \<noteq> 1" "client_error w = None"
      and "paginate w ''SERVER'' (build_filters (filter_params a) []) = Inr pages"
      and "extend_pages pages [] = []"
  shows "list_configurations w a =
           (Ok None, [Log INFO [Lit ''Listing configurations...''],
                      Paginate ''SERVER'' (build_filters (filter_params a) []),
                      Log WARNING [Lit ''No configurations found, exiting...'']])
     \<and> fst (list_configurations w a) \<noteq> Ok (Some [])
     \<and> main w =
           (Ok (), init_events a @
                   [Log INFO [Lit ''Listing configurations...''],
                    Paginate ''SERVER'' (build_filters (filter_params a) []),
                    Log WARNING [Lit ''No configurations found, exiting...'']])
     \<and> exit_status (fst (main w)) = 0
     \<and> filter is_input (snd (main w)) = []
     \<and> filter is_delete_call (snd (main w)) = []"
proof -
  have l: "list_configurations w a =
           (Ok None, [Log INFO [Lit ''Listing configurations...''],
                      Paginate ''SERVER'' (build_filters (filter_params a) []),
                      Log WARNING [Lit ''No configurations found, exiting...'']])"
    using assms(4,5) by (rule list_configurations_empty)
  have m: "main w =
           (Ok (), init_events a @
                   [Log INFO [Lit ''Listing configurations...''],
                    Paginate ''SERVER'' (build_filters (filter_params a) []),
                    Log WARNING [Lit ''No configurations found, exiting...'']])"
    by (simp add: main_def main_try_started [OF assms(1-3)] l io_bind_def prepend_def main_except_def)
  have "filter is_input (snd (main w)) = []"
    by (simp add: m init_events_def)
  moreover have "filter is_delete_call (snd (main w)) = []"
    by (simp add: m init_events_def is_delete_call_def)
  ultimately show ?thesis using l m by simp
qed

theorem no_records_no_deletion_witness:
  "parse_args empty_world = Ok example_params
   \<and> length (argv empty_world) \<noteq> 1
   \<and> client_error empty_world = None
   \<and> paginate empty_world ''SERVER'' (build_filters (filter_params example_params) []) = Inr [Some [], None]
   \<and> extend_pages [Some [], None] [] = []
   \<and> fst (list_configurations empty_world example_params) = Ok None
   \<and> exit_status (fst (main empty_world)) = 0
   \<and> filter is_delete_call (snd (main empty_world)) = []"
proof -
  have h1: "parse_args empty_world = Ok example_params"
    by (simp add: parse_args_def world_defs)
  have h2: "length (argv empty_world) \<noteq> 1" by (simp add: world_defs)
  have h3: "client_error empty_world = None" by (simp add: world_defs)
  have h4: "paginate empty_world ''SERVER'' (build_filters (filter_params example_params) []) = Inr [Some [], None]"
    by (simp add: world_defs)
  have h5: "extend_pages [Some [], None] [] = []" by simp
  note c = no_records_no_deletion [OF h1 h2 h3 h4 h5]
  from c have c1: "fst (list_configurations empty_world example_params) = Ok None" by simp
  from c have c2: "exit_status (fst (main empty_world)) = 0" by blast
  from c have c3: "filter is_delete_call (snd (main empty_world)) = []" by blast
  from h1 h2 h3 h4 h5 c1 c2 c3 show ?thesis by blast
qed

section \<open>The confirmation gate\<close>



section \<open>The unattended flag\<close>

text \<open>
  Claim C9, as stated, fails where nothing is found: the run below has the unattended flag
  set, the list call finds no record, and the run ends normally without any delete call, so
  it does not go on to deletion.
\<close>

theorem unattended_nothing_found:
  "parse_args empty_world = Ok example_params
   \<and> unattended example_params
   \<and> fst (list_configurations empty_world example_params) = Ok None
   \<and> fst (main empty_world) = Ok ()
   \<and> filter is_input (snd (main empty_world)) = []
   \<and> filter is_delete_call (snd (main empty_world)) = []"
  by (simp add: empty_world_started(1))
     (simp add: main_def main_try_def main_except_def parse_args_def io_bind_def ADS_init_def
        init_events_def list_configurations_def list_configurations_try_def reraise_def
        is_delete_call_def empty_world_def example_world_def example_params_def)

text \<open>
  Claim C9, amended. In every run with the unattended flag set, no line of input is read,
  whatever the list call finds. When the run reaches the list call and at least one record
  is found, \<^verbatim>\<open>list_configurations\<close> returns the records right after logging them and the run
  goes on directly with the deletion block of \<^verbatim>\<open>main\<close>.
\<close>

theorem unattended_skips_confirmation:
  assumes "parse_args w = Ok a" "unattended a"
  shows "filter is_input (snd (main w)) = []
     \<and> (length (argv w) \<noteq> 1 \<and> client_error w = None
        \<and> paginate w ''SERVER'' (build_filters (filter_params a) []) = Inr pages
        \<and> extend_pages pages [] \<noteq> [] \<longrightarrow>
          list_configurations w a =
            (Ok (Some (extend_pages pages [])), found_events a (extend_pages pages []))
          \<and> main w =
            main_except
              (prepend (init_events a @ found_events a (extend_pages pages []))
                 (deletion w a (extend_pages pages []))))"
proof (intro conjI impI)
  show "filter is_input (snd (main w)) = []"
    using assms by (rule main_unattended_no_input)
next
  assume h: "length (argv w) \<noteq> 1 \<and> client_error w = None
        \<and> paginate w ''SERVER'' (build_filters (filter_params a) []) = Inr pages
        \<and> extend_pages pages [] \<noteq> []"
  then have p: "paginate w ''SERVER'' (build_filters (filter_params a) []) = Inr pages"
    and n: "extend_pages pages [] \<noteq> []" by simp_all
  show l: "list_configurations w a =
            (Ok (Some (extend_pages pages [])), found_events a (extend_pages pages []))"
    by (rule list_configurations_unattended [OF assms(2) p n])
  from h have s: "length (argv w) \<noteq> 1" "client_error w = None" by simp_all
  show "main w =
            main_except
              (prepend (init_events a @ found_events a (extend_pages pages []))
                 (deletion w a (extend_pages pages [])))"
    by (rule main_after_list [OF assms(1) s l])
qed

theorem unattended_skips_confirmation_witness:
  "parse_args example_world = Ok example_params
   \<and> unattended example_params
   \<and> length (argv example_world) \<noteq> 1 \<and> client_error example_world = None
   \<and> paginate example_world ''SERVER'' (build_filters (filter_params example_params) []) =
       Inr [Some example_records]
   \<and> extend_pages [Some example_records] [] \<noteq> []
   \<and> filter is_input (snd (main example_world)) = []
   \<and> fst (list_configurations example_world example_params) = Ok (Some example_records)
   \<and> filter is_remote_call (snd (main example_world)) =
       [Paginate ''SERVER'' [\<lparr>f_name = ''server.application.name'', f_values = [''web01''],
                               f_condition = ''EQ''\<rparr>],
        Batch_delete_agents [\<lparr>agentId = ''a1'', da_force = False\<rparr>,
                             \<lparr>agentId = ''a2'', da_force = False\<rparr>],
        Start_batch_delete_configuration_task ''SERVER'' [''c1'', ''c2'']]"
proof -
  have u: "unattended example_params" by (simp add: example_params_def)
  have n: "extend_pages [Some example_records] [] \<noteq> []"
    by (simp add: example_records_def)
  note c = unattended_skips_confirmation [OF example_world_started(1) u, of "[Some example_records]"]
  from c have c1: "filter is_input (snd (main example_world)) = []" by blast
  from c example_world_started n
  have c2: "list_configurations example_world example_params =
            (Ok (Some (extend_pages [Some example_records] [])),
             found_events example_params (extend_pages [Some example_records] []))"
    by blast
  then have c2': "fst (list_configurations example_world example_params) = Ok (Some example_records)"
    by simp
  from c example_world_started n
  have "main example_world =
            main_except
              (prepend (init_events example_params @
                        found_events example_params (extend_pages [Some example_records] []))
                 (deletion example_world example_params (extend_pages [Some example_records] [])))"
    by blast
  then have c3: "filter is_remote_call (snd (main example_world)) =
       [Paginate ''SERVER'' [\<lparr>f_name = ''server.application.name'', f_values = [''web01''],
                               f_condition = ''EQ''\<rparr>],
        Batch_delete_agents [\<lparr>agentId = ''a1'', da_force = False\<rparr>,
                             \<lparr>agentId = ''a2'', da_force = False\<rparr>],
        Start_batch_delete_configuration_task ''SERVER'' [''c1'', ''c2'']]"
    by (simp add: example_deletion example_world_def main_except_def prepend_def
        init_events_def found_events_def listing_events_def filter_params_def
        is_remote_call_def is_delete_call_def example_params_def)
  from u n c1 c2' c3 example_world_started show ?thesis by blast
qed

section \<open>Records without an identifier\<close>

text \<open>
  Claim C10. When \<^verbatim>\<open>list_configurations\<close> returns records of which one lacks the key
  \<^verbatim>\<open>server.agentId\<close> or the key \<^verbatim>\<open>server.configurationId\<close>, the deletion block of \<^verbatim>\<open>main\<close> raises
  the \<^verbatim>\<open>KeyError\<close> of one of the two keys before any event of its own; \<^verbatim>\<open>main\<close> logs it and
  the process leaves with exit status 1, without any delete call.
\<close>

theorem missing_key_aborts:
  assumes "parse_args w = Ok a" "length (argv w) \<noteq> 1" "client_error w = None"
      and "list_configurations w a = (Ok (Some cs), evs)"
      and "\<exists>c \<in> set cs. map_of c ''server.agentId'' = None
                        \<or> map_of c ''server.configurationId'' = None"
  shows "(\<exists>k \<in> {''server.agentId'', ''server.configurationId''}.
            deletion w a cs = (Raise (KeyError k), [])
          \<and> main w =
              (SysExit 1,
               init_events a @ evs @ [Log ERROR [Lit ''An error occurred: '', Lit (str (KeyError k))]]))
     \<and> exit_status (fst (main w)) = 1
     \<and> filter is_delete_call (snd (main w)) = []"
proof -
  have m: "main w = main_except (prepend (init_events a @ evs) (deletion w a cs))"
    by (rule main_after_list [OF assms(1-4)])
  from deletion_missing [OF assms(5)]
  obtain k where k: "k \<in> {''server.agentId'', ''server.configurationId''}"
    and d: "deletion w a cs = (Raise (KeyError k), [])"
    by blast
  have m': "main w =
              (SysExit 1,
               init_events a @ evs @ [Log ERROR [Lit ''An error occurred: '', Lit (str (KeyError k))]])"
    by (simp add: m d prepend_def main_except_def)
  have "filter is_delete_call evs = []"
    using list_configurations_no_delete [of w a] assms(4) by simp
  then have nd: "filter is_delete_call (snd (main w)) = []"
    by (simp add: m' init_events_no_delete) (simp add: is_delete_call_def)
  have e: "exit_status (fst (main w)) = 1" by (simp add: m')
  from k d m' nd e show ?thesis by blast
qed

theorem missing_key_aborts_witness:
  "fst (list_configurations missing_key_world example_params) =
     Ok (Some [[(''server.agentId'', ''a1''), (''server.configurationId'', ''c1'')],
               [(''server.agentId'', ''a2'')]])
   \<and> map_of [(''server.agentId'', ''a2'')] ''server.configurationId'' = None
   \<and> exit_status (fst (main missing_key_world)) = 1
   \<and> filter is_delete_call (snd (main missing_key_world)) = []"
proof -
  let ?cs = "[[(''server.agentId'', ''a1''), (''server.configurationId'', ''c1'')],
              [(''server.agentId'', ''a2'')]]"
  have u: "unattended example_params" by (simp add: example_params_def)
  have p: "paginate missing_key_world ''SERVER'' (build_filters (filter_params example_params) []) =
           Inr [Some ?cs]"
    by (simp add: missing_key_world_def example_world_def)
  have n: "extend_pages [Some ?cs] [] \<noteq> []" by simp
  have l: "list_configurations missing_key_world example_params =
           (Ok (Some ?cs), found_events example_params ?cs)"
    using list_configurations_unattended [OF u p n] by simp
  have k: "\<exists>c \<in> set ?cs. map_of c ''server.agentId'' = None
                        \<or> map_of c ''server.configurationId'' = None"
    by simp
  note c = missing_key_aborts [OF missing_key_world_started l k]
  from c have c1: "exit_status (fst (main missing_key_world)) = 1" by blast
  from c have c2: "filter is_delete_call (snd (main missing_key_world)) = []" by blast
  have c0: "map_of [(''server.agentId'', ''a2'')] ''server.configurationId'' = None" by simp
  from l have l': "fst (list_configurations missing_key_world example_params) = Ok (Some ?cs)"
    by simp
  from l' c0 c1 c2 show ?thesis by blast
qed

section \<open>The identifiers given to the delete calls\<close>

text \<open>
  Claim C1, as stated, fails when the batch delete of agents reports errors: two records are
  listed, all with both identifiers, yet \<^verbatim>\<open>delete_configurations\<close> is never called.
\<close>

theorem failed_agents_skip_configurations:
  "fst (list_configurations agent_errors_world example_params) = Ok (Some example_records)
   \<and> length example_records = 2
   \<and> filter is_delete_configurations_call (snd (main agent_errors_world)) = []"
proof -
  have m: "main agent_errors_world =
      main_except (prepend (init_events example_params @ found_events example_params example_records)
        (deletion agent_errors_world example_params example_records))"
    by (rule main_after_list [OF agent_errors_world_started(1-3) agent_errors_list])
  have d: "deletion agent_errors_world example_params example_records =
      (Raise (Exception (''Error deleting agents: Agent a1: boom'' @ newline @ ''Agent a2: busy'')),
       [Log INFO [Lit ''Deleting agents...''],
        Batch_delete_agents [\<lparr>agentId = ''a1'', da_force = False\<rparr>,
                             \<lparr>agentId = ''a2'', da_force = False\<rparr>]])"
    by (simp add: deletion_def example_records_def getitem_def delete_agents_def
        delete_agents_try_def reraise_def io_bind_def agent_errors_world_started(5)
        agent_errors_def example_params_def)
  have "filter is_delete_configurations_call (snd (main agent_errors_world)) = []"
    by (simp add: m d main_except_def prepend_def init_events_def found_events_def
        listing_events_def)
  moreover have "length example_records = 2" by (simp add: example_records_def)
  ultimately show ?thesis by (simp add: agent_errors_list)
qed

text \<open>
  Claim C1, amended. In a run where \<^verbatim>\<open>list_configurations\<close> returns N records that all carry
  both identifier keys, the remote calls of the run are, in this order: the one list call;
  one batch delete of agents with the N agent identifiers, the i-th being the
  \<^verbatim>\<open>server.agentId\<close> of the i-th record; and, when \<^verbatim>\<open>delete_agents\<close> returns without raising,
  one delete-configurations call with the N configuration identifiers, the i-th being the
  \<^verbatim>\<open>server.configurationId\<close> of the i-th record. There is no second list call.
\<close>

theorem deletes_use_listed_identifiers:
  assumes "parse_args w = Ok a" "length (argv w) \<noteq> 1" "client_error w = None"
      and "list_configurations w a = (Ok (Some cs), evs)"
      and "\<forall>c \<in> set cs. map_of c ''server.agentId'' \<noteq> None
                        \<and> map_of c ''server.configurationId'' \<noteq> None"
  shows "filter is_remote_call (snd (main w)) =
     Paginate ''SERVER'' (build_filters (filter_params a) []) #
     Batch_delete_agents
       (map (\<lambda>c. \<lparr>agentId = the (map_of c ''server.agentId''), da_force = force a\<rparr>) cs) #
     (if fst (delete_agents w a (map (\<lambda>c. the (map_of c ''server.agentId'')) cs)) = Ok ()
      then [Start_batch_delete_configuration_task ''SERVER''
              (map (\<lambda>c. the (map_of c ''server.configurationId'')) cs)]
      else [])"
proof -
  have m: "main w = main_except (prepend (init_events a @ evs) (deletion w a cs))"
    by (rule main_after_list [OF assms(1-4)])
  have l: "filter is_remote_call evs = [Paginate ''SERVER'' (build_filters (filter_params a) [])]"
    using list_configurations_remote_calls [of w a] assms(4) by simp
  show ?thesis
    by (simp only: m filter_remote_main_except snd_prepend filter_append init_events_no_remote l
        deletion_remote_calls [OF assms(5)] append_Nil append_Cons)
qed

theorem deletes_use_listed_identifiers_witness:
  "parse_args example_world = Ok example_params
   \<and> length (argv example_world) \<noteq> 1
   \<and> client_error example_world = None
   \<and> fst (list_configurations example_world example_params) = Ok (Some example_records)
   \<and> length example_records = 2
   \<and> filter is_remote_call (snd (main example_world)) =
       [Paginate ''SERVER'' [\<lparr>f_name = ''server.application.name'', f_values = [''web01''],
                               f_condition = ''EQ''\<rparr>],
        Batch_delete_agents [\<lparr>agentId = ''a1'', da_force = False\<rparr>,
                             \<lparr>agentId = ''a2'', da_force = False\<rparr>],
        Start_batch_delete_configuration_task ''SERVER'' [''c1'', ''c2'']]"
proof -
  note c = deletes_use_listed_identifiers [OF example_world_started(1-3) example_list example_records_keys]
  have d: "fst (delete_agents example_world example_params [''a1'', ''a2'']) = Ok ()"
    by (simp add: delete_agents_def delete_agents_try_def reraise_def example_world_def)
  have f: "build_filters (filter_params example_params) [] =
       [\<lparr>f_name = ''server.application.name'', f_values = [''web01''], f_condition = ''EQ''\<rparr>]"
    by (simp add: filter_params_def example_params_def)
  have g: "force example_params = False" by (simp add: example_params_def)
  from c have c1: "filter is_remote_call (snd (main example_world)) =
       [Paginate ''SERVER'' [\<lparr>f_name = ''server.application.name'', f_values = [''web01''],
                               f_condition = ''EQ''\<rparr>],
        Batch_delete_agents [\<lparr>agentId = ''a1'', da_force = False\<rparr>,
                             \<lparr>agentId = ''a2'', da_force = False\<rparr>],
        Start_batch_delete_configuration_task ''SERVER'' [''c1'', ''c2'']]"
    by (simp add: example_records_ids d f g) (simp add: example_records_def)
  have l: "fst (list_configurations example_world example_params) = Ok (Some example_records)"
    by (simp add: example_list)
  have n: "length example_records = 2" by (simp add: example_records_def)
  from example_world_started(1-3) l n c1 show ?thesis by blast
qed

section \<open>Errors reported for agents\<close>

text \<open>
  Claim C3, as stated, fails on the form of the message: with one error entry, for agent
  \<^verbatim>\<open>a1\<close> with text \<^verbatim>\<open>boom\<close>, the failure raised by \<^verbatim>\<open>delete_agents\<close> has the one-line message
  \<^verbatim>\<open>Error deleting agents: Agent a1: boom\<close>, not \<^verbatim>\<open>Agent a1: boom\<close>: the aggregate raised
  inside the \<^verbatim>\<open>try\<close> is caught by the \<^verbatim>\<open>except\<close> of the same function and wrapped.
\<close>

theorem aggregate_message_prefixed:
  "batch_delete_agents one_agent_error_world
        [\<lparr>agentId = ''a1'', da_force = False\<rparr>, \<lparr>agentId = ''a2'', da_force = False\<rparr>] =
       Inr (Some [[(''agentId'', ''a1''), (''errorMessage'', ''boom'')]])
   \<and> fst (delete_agents one_agent_error_world example_params [''a1'', ''a2'']) =
       Raise (Exception ''Error deleting agents: Agent a1: boom'')
   \<and> fst (delete_agents one_agent_error_world example_params [''a1'', ''a2'']) \<noteq>
       Raise (Exception ''Agent a1: boom'')"
  by (simp add: delete_agents_def delete_agents_try_def reraise_def getitem_def
      one_agent_error_world_def example_world_def)

text \<open>
  Claim C3, amended. In a run that reaches \<^verbatim>\<open>delete_agents\<close> (the records listed all carry
  both identifier keys), when the response of the batch delete holds k \<ge> 1 error entries,
  each with its \<^verbatim>\<open>agentId\<close> and \<^verbatim>\<open>errorMessage\<close>, \<^verbatim>\<open>delete_agents\<close> raises one failure whose
  message is \<^verbatim>\<open>Error deleting agents: \<close> followed by the k texts \<^verbatim>\<open>Agent <id>: <message>\<close>, in
  the order of the entries, joined by newlines; \<^verbatim>\<open>main\<close> logs it, the process leaves with
  exit status 1, and \<^verbatim>\<open>delete_configurations\<close> is never called.
\<close>

theorem agent_errors_aggregate:
  assumes "parse_args w = Ok a" "length (argv w) \<noteq> 1" "client_error w = None"
      and "list_configurations w a = (Ok (Some cs), evs)"
      and "\<forall>c \<in> set cs. map_of c ''server.agentId'' \<noteq> None
                        \<and> map_of c ''server.configurationId'' \<noteq> None"
      and "batch_delete_agents w
             (map (\<lambda>c. \<lparr>agentId = the (map_of c ''server.agentId''), da_force = force a\<rparr>) cs) =
           Inr (Some errors)"
      and "errors \<noteq> []"
      and "\<forall>e \<in> set errors. map_of e ''agentId'' \<noteq> None \<and> map_of e ''errorMessage'' \<noteq> None"
  shows "fst (delete_agents w a (map (\<lambda>c. the (map_of c ''server.agentId'')) cs)) =
           Raise (Exception (''Error deleting agents: '' @
             join newline (map (\<lambda>e. ''Agent '' @ the (map_of e ''agentId'') @ '': '' @
                                       the (map_of e ''errorMessage'')) errors)))
     \<and> main w =
           (SysExit 1,
            init_events a @ evs @
            [Log INFO [Lit ''Deleting agents...''],
             Batch_delete_agents
               (map (\<lambda>c. \<lparr>agentId = the (map_of c ''server.agentId''), da_force = force a\<rparr>) cs),
             Log ERROR [Lit ''An error occurred: '',
                        Lit (''Error deleting agents: '' @
                             join newline (map (\<lambda>e. ''Agent '' @ the (map_of e ''agentId'') @ '': '' @
                                                       the (map_of e ''errorMessage'')) errors))]])
     \<and> filter is_delete_configurations_call (snd (main w)) = []"
proof -
  let ?ids = "map (\<lambda>c. the (map_of c ''server.agentId'')) cs"
  let ?msg = "''Error deleting agents: '' @
             join newline (map (\<lambda>e. ''Agent '' @ the (map_of e ''agentId'') @ '': '' @
                                       the (map_of e ''errorMessage'')) errors)"
  have r: "map (\<lambda>agent_id. \<lparr>agentId = agent_id, da_force = force a\<rparr>) ?ids =
           map (\<lambda>c. \<lparr>agentId = the (map_of c ''server.agentId''), da_force = force a\<rparr>) cs"
    by (simp add: comp_def)
  have d: "delete_agents w a ?ids =
     (Raise (Exception ?msg),
      [Log INFO [Lit ''Deleting agents...''],
       Batch_delete_agents
         (map (\<lambda>c. \<lparr>agentId = the (map_of c ''server.agentId''), da_force = force a\<rparr>) cs)])"
  proof -
    have b: "batch_delete_agents w
               (map (\<lambda>agent_id. \<lparr>agentId = agent_id, da_force = force a\<rparr>) ?ids) =
             Inr (Some errors)"
      using assms(6) by (simp add: comp_def)
    from delete_agents_errors [OF b assms(7) assms(8)] show ?thesis
      by (simp add: comp_def)
  qed
  have m: "main w = main_except (prepend (init_events a @ evs) (deletion w a cs))"
    by (rule main_after_list [OF assms(1-4)])
  have m': "main w =
           (SysExit 1,
            init_events a @ evs @
            [Log INFO [Lit ''Deleting agents...''],
             Batch_delete_agents
               (map (\<lambda>c. \<lparr>agentId = the (map_of c ''server.agentId''), da_force = force a\<rparr>) cs),
             Log ERROR [Lit ''An error occurred: '', Lit ?msg]])"
    by (simp add: m deletion_present [OF assms(5)] d io_bind_def prepend_def main_except_def)
  have "filter is_remote_call evs = [Paginate ''SERVER'' (build_filters (filter_params a) [])]"
    using list_configurations_remote_calls [of w a] assms(4) by simp
  have e: "filter is_delete_configurations_call evs = []"
    using list_configurations_no_delete [of w a] assms(4)
    by (simp add: is_delete_call_def filter_empty_conv)
  have i: "filter is_delete_configurations_call (init_events a) = []"
    by (simp add: init_events_def)
  have n: "filter is_delete_configurations_call (snd (main w)) = []"
    by (simp add: m' e i)
  from d m' n show ?thesis by simp
qed

theorem agent_errors_aggregate_witness:
  "fst (list_configurations agent_errors_world example_params) = Ok (Some example_records)
   \<and> batch_delete_agents agent_errors_world
        [\<lparr>agentId = ''a1'', da_force = False\<rparr>, \<lparr>agentId = ''a2'', da_force = False\<rparr>] =
       Inr (Some agent_errors)
   \<and> length agent_errors = 2
   \<and> fst (delete_agents agent_errors_world example_params [''a1'', ''a2'']) =
       Raise (Exception (''Error deleting agents: Agent a1: boom'' @ newline @ ''Agent a2: busy''))
   \<and> fst (main agent_errors_world) = SysExit 1
   \<and> filter is_delete_configurations_call (snd (main agent_errors_world)) = []"
proof -
  have e: "agent_errors \<noteq> []" by (simp add: agent_errors_def)
  note c = agent_errors_aggregate [OF agent_errors_world_started(1-3) agent_errors_list example_records_keys
      agent_errors_world_started(5) e agent_errors_keys]
  have j: "join newline (map (\<lambda>e. ''Agent '' @ the (map_of e ''agentId'') @ '': '' @
                                   the (map_of e ''errorMessage'')) agent_errors) =
           ''Agent a1: boom'' @ newline @ ''Agent a2: busy''"
    by (simp add: agent_errors_def)
  from c have "fst (delete_agents agent_errors_world example_params
                      (map (\<lambda>c. the (map_of c ''server.agentId'')) example_records)) =
       Raise (Exception (''Error deleting agents: '' @
         join newline (map (\<lambda>e. ''Agent '' @ the (map_of e ''agentId'') @ '': '' @
                                   the (map_of e ''errorMessage'')) agent_errors)))"
    by blast
  then have c1: "fst (delete_agents agent_errors_world example_params [''a1'', ''a2'']) =
       Raise (Exception (''Error deleting agents: Agent a1: boom'' @ newline @ ''Agent a2: busy''))"
    unfolding example_records_ids j by simp
  from c have c2: "fst (main agent_errors_world) = SysExit 1" by simp
  from c have c3: "filter is_delete_configurations_call (snd (main agent_errors_world)) = []"
    by blast
  have l: "fst (list_configurations agent_errors_world example_params) = Ok (Some example_records)"
    by (simp add: agent_errors_list)
  have n: "length agent_errors = 2" by (simp add: agent_errors_def)
  from l n c1 c2 c3 agent_errors_world_started(5) show ?thesis by blast
qed

section \<open>Remote errors\<close>

text \<open>
  Claim C8. In a run that reaches the list call: an error of the paginated list call, of
  the batch delete of agents, or of the delete-configurations call is raised again by the
  method it arose in as an exception whose message is \<^verbatim>\<open>Error listing configurations: \<close>,
  \<^verbatim>\<open>Error deleting agents: \<close> or \<^verbatim>\<open>Error deleting configurations: \<close> followed by the text
  of the error. \<^verbatim>\<open>main\<close> catches it: the failing call is the last remote call of the
  run, the one event after it is the error log line carrying that message, which is the
  only error log line of the run, and the process leaves with exit status 1.
\<close>

theorem remote_errors_fatal:
  assumes "parse_args w = Ok a" "length (argv w) \<noteq> 1" "client_error w = None"
  shows "(paginate w ''SERVER'' (build_filters (filter_params a) []) = Inl e \<longrightarrow>
            fst (list_configurations w a) =
              Raise (Exception (''Error listing configurations: '' @ str e))
          \<and> main w =
              (SysExit 1,
               init_events a @ listing_events a @
               [Log ERROR [Lit ''An error occurred: '',
                           Lit (''Error listing configurations: '' @ str e)]])
          \<and> filter is_error_log (snd (main w)) =
              [Log ERROR [Lit ''An error occurred: '',
                          Lit (''Error listing configurations: '' @ str e)]])
     \<and> (list_configurations w a = (Ok (Some cs), evs)
        \<and> getitems ''server.agentId'' cs = Inr agent_ids
        \<and> getitems ''server.configurationId'' cs = Inr configuration_ids
        \<and> batch_delete_agents w
             (map (\<lambda>agent_id. \<lparr>agentId = agent_id, da_force = force a\<rparr>) agent_ids) = Inl e \<longrightarrow>
            fst (delete_agents w a agent_ids) =
              Raise (Exception (''Error deleting agents: '' @ str e))
          \<and> main w =
              (SysExit 1,
               init_events a @ evs @
               [Log INFO [Lit ''Deleting agents...''],
                Batch_delete_agents
                  (map (\<lambda>agent_id. \<lparr>agentId = agent_id, da_force = force a\<rparr>) agent_ids),
                Log ERROR [Lit ''An error occurred: '',
                           Lit (''Error deleting agents: '' @ str e)]])
          \<and> filter is_error_log (snd (main w)) =
              [Log ERROR [Lit ''An error occurred: '',
                          Lit (''Error deleting agents: '' @ str e)]])
     \<and> (list_configurations w a = (Ok (Some cs), evs)
        \<and> getitems ''server.agentId'' cs = Inr agent_ids
        \<and> getitems ''server.configurationId'' cs = Inr configuration_ids
        \<and> delete_agents w a agent_ids = (Ok (), evs')
        \<and> start_batch_delete_configuration_task w ''SERVER'' configuration_ids = Some e \<longrightarrow>
            fst (delete_configurations w a configuration_ids) =
              Raise (Exception (''Error deleting configurations: '' @ str e))
          \<and> main w =
              (SysExit 1,
               init_events a @ evs @ evs' @
               [Log INFO [Lit ''Deleting configurations...''],
                Start_batch_delete_configuration_task ''SERVER'' configuration_ids,
                Log ERROR [Lit ''An error occurred: '',
                           Lit (''Error deleting configurations: '' @ str e)]])
          \<and> filter is_error_log (snd (main w)) =
              [Log ERROR [Lit ''An error occurred: '',
                          Lit (''Error deleting configurations: '' @ str e)]])"
proof (intro conjI impI)
  assume p: "paginate w ''SERVER'' (build_filters (filter_params a) []) = Inl e"
  note l = list_configurations_failure [OF p]
  show "fst (list_configurations w a) =
          Raise (Exception (''Error listing configurations: '' @ str e))"
    by (simp add: l)
  show m: "main w =
              (SysExit 1,
               init_events a @ listing_events a @
               [Log ERROR [Lit ''An error occurred: '',
                           Lit (''Error listing configurations: '' @ str e)]])"
    by (simp add: main_def main_try_started [OF assms] l io_bind_def prepend_def main_except_def)
  show "filter is_error_log (snd (main w)) =
              [Log ERROR [Lit ''An error occurred: '',
                          Lit (''Error listing configurations: '' @ str e)]]"
    by (simp add: m init_events_def listing_events_def)
next
  assume h: "list_configurations w a = (Ok (Some cs), evs)
        \<and> getitems ''server.agentId'' cs = Inr agent_ids
        \<and> getitems ''server.configurationId'' cs = Inr configuration_ids
        \<and> batch_delete_agents w
             (map (\<lambda>agent_id. \<lparr>agentId = agent_id, da_force = force a\<rparr>) agent_ids) = Inl e"
  then have l: "list_configurations w a = (Ok (Some cs), evs)"
    and g: "getitems ''server.agentId'' cs = Inr agent_ids"
           "getitems ''server.configurationId'' cs = Inr configuration_ids"
    and b: "batch_delete_agents w
             (map (\<lambda>agent_id. \<lparr>agentId = agent_id, da_force = force a\<rparr>) agent_ids) = Inl e"
    by simp_all
  note d = delete_agents_failure [OF b]
  show "fst (delete_agents w a agent_ids) =
          Raise (Exception (''Error deleting agents: '' @ str e))"
    by (simp add: d)
  show m: "main w =
              (SysExit 1,
               init_events a @ evs @
               [Log INFO [Lit ''Deleting agents...''],
                Batch_delete_agents
                  (map (\<lambda>agent_id. \<lparr>agentId = agent_id, da_force = force a\<rparr>) agent_ids),
                Log ERROR [Lit ''An error occurred: '',
                           Lit (''Error deleting agents: '' @ str e)]])"
    by (simp add: main_after_list [OF assms l] deletion_def g d io_bind_def prepend_def
        main_except_def)
  have "filter is_error_log evs = []"
    using list_configurations_no_error_log [of w a] l by simp
  then show "filter is_error_log (snd (main w)) =
              [Log ERROR [Lit ''An error occurred: '',
                          Lit (''Error deleting agents: '' @ str e)]]"
    by (simp add: m init_events_def)
next
  assume h: "list_configurations w a = (Ok (Some cs), evs)
        \<and> getitems ''server.agentId'' cs = Inr agent_ids
        \<and> getitems ''server.configurationId'' cs = Inr configuration_ids
        \<and> delete_agents w a agent_ids = (Ok (), evs')
        \<and> start_batch_delete_configuration_task w ''SERVER'' configuration_ids = Some e"
  then have l: "list_configurations w a = (Ok (Some cs), evs)"
    and g: "getitems ''server.agentId'' cs = Inr agent_ids"
           "getitems ''server.configurationId'' cs = Inr configuration_ids"
    and d: "delete_agents w a agent_ids = (Ok (), evs')"
    and t: "start_batch_delete_configuration_task w ''SERVER'' configuration_ids = Some e"
    by simp_all
  note dc = delete_configurations_failure [OF t]
  show "fst (delete_configurations w a configuration_ids) =
          Raise (Exception (''Error deleting configurations: '' @ str e))"
    by (simp add: dc)
  show m: "main w =
              (SysExit 1,
               init_events a @ evs @ evs' @
               [Log INFO [Lit ''Deleting configurations...''],
                Start_batch_delete_configuration_task ''SERVER'' configuration_ids,
                Log ERROR [Lit ''An error occurred: '',
                           Lit (''Error deleting configurations: '' @ str e)]])"
    by (simp add: main_after_list [OF assms l] deletion_def g d dc io_bind_def prepend_def
        main_except_def)
  have "filter is_error_log evs = []"
    using list_configurations_no_error_log [of w a] l by simp
  moreover have "filter is_error_log evs' = []"
    using delete_agents_no_error_log [of w a agent_ids] d by simp
  ultimately show "filter is_error_log (snd (main w)) =
              [Log ERROR [Lit ''An error occurred: '',
                          Lit (''Error deleting configurations: '' @ str e)]]"
    by (simp add: m init_events_def)
qed

theorem remote_errors_fatal_witness:
  "paginate list_failure_world ''SERVER'' (build_filters (filter_params example_params) []) =
     Inl (RemoteError ''timed out'')
   \<and> fst (list_configurations list_failure_world example_params) =
       Raise (Exception ''Error listing configurations: timed out'')
   \<and> fst (main list_failure_world) = SysExit 1
   \<and> filter is_error_log (snd (main list_failure_world)) =
       [Log ERROR [Lit ''An error occurred: '', Lit ''Error listing configurations: timed out'']]
   \<and> batch_delete_agents agents_failure_world
        [\<lparr>agentId = ''a1'', da_force = False\<rparr>, \<lparr>agentId = ''a2'', da_force = False\<rparr>] =
       Inl (RemoteError ''timed out'')
   \<and> fst (delete_agents agents_failure_world example_params [''a1'', ''a2'']) =
       Raise (Exception ''Error deleting agents: timed out'')
   \<and> fst (main agents_failure_world) = SysExit 1
   \<and> filter is_error_log (snd (main agents_failure_world)) =
       [Log ERROR [Lit ''An error occurred: '', Lit ''Error deleting agents: timed out'']]
   \<and> start_batch_delete_configuration_task configurations_failure_world ''SERVER'' [''c1'', ''c2''] =
       Some (RemoteError ''timed out'')
   \<and> fst (delete_configurations configurations_failure_world example_params [''c1'', ''c2'']) =
       Raise (Exception ''Error deleting configurations: timed out'')
   \<and> fst (main configurations_failure_world) = SysExit 1
   \<and> filter is_error_log (snd (main configurations_failure_world)) =
       [Log ERROR [Lit ''An error occurred: '', Lit ''Error deleting configurations: timed out'']]"
proof -
  have p: "paginate list_failure_world ''SERVER'' (build_filters (filter_params example_params) []) =
     Inl (RemoteError ''timed out'')"
    by (simp add: list_failure_world_def example_world_def)
  have b: "batch_delete_agents agents_failure_world
        (map (\<lambda>agent_id. \<lparr>agentId = agent_id, da_force = force example_params\<rparr>) [''a1'', ''a2'']) =
       Inl (RemoteError ''timed out'')"
    by (simp add: agents_failure_world_def example_world_def)
  have b': "batch_delete_agents agents_failure_world
        [\<lparr>agentId = ''a1'', da_force = False\<rparr>, \<lparr>agentId = ''a2'', da_force = False\<rparr>] =
       Inl (RemoteError ''timed out'')"
    by (simp add: agents_failure_world_def example_world_def)
  have t: "start_batch_delete_configuration_task configurations_failure_world ''SERVER''
             [''c1'', ''c2''] = Some (RemoteError ''timed out'')"
    by (simp add: configurations_failure_world_def example_world_def)
  have d: "delete_agents configurations_failure_world example_params [''a1'', ''a2''] =
       (Ok (), [Log INFO [Lit ''Deleting agents...''],
                Batch_delete_agents [\<lparr>agentId = ''a1'', da_force = False\<rparr>,
                                     \<lparr>agentId = ''a2'', da_force = False\<rparr>],
                Log INFO [Lit ''Deleted agents: '', StrList [''a1'', ''a2'']]])"
    by (simp add: delete_agents_def delete_agents_try_def reraise_def
        configurations_failure_world_def example_world_def example_params_def)
  note c1 = remote_errors_fatal [OF failure_worlds_started(1-3), THEN conjunct1, rule_format, OF p]
  note c2 = remote_errors_fatal [OF failure_worlds_started(4-6), THEN conjunct2, THEN conjunct1,
      rule_format, OF conjI [OF failure_worlds_list(1) conjI [OF example_getitems(1)
        conjI [OF example_getitems(2) b]]]]
  note c3 = remote_errors_fatal [OF failure_worlds_started(7-9), THEN conjunct2, THEN conjunct2,
      rule_format, OF conjI [OF failure_worlds_list(2) conjI [OF example_getitems(1)
        conjI [OF example_getitems(2) conjI [OF d t]]]]]
  from c1 [THEN conjunct1] have l1: "fst (list_configurations list_failure_world example_params) =
       Raise (Exception ''Error listing configurations: timed out'')" by simp
  from c1 [THEN conjunct2, THEN conjunct1] have l2: "fst (main list_failure_world) = SysExit 1" by simp
  from c1 [THEN conjunct2, THEN conjunct2] have l3: "filter is_error_log (snd (main list_failure_world)) =
       [Log ERROR [Lit ''An error occurred: '', Lit ''Error listing configurations: timed out'']]"
    by simp
  from c2 [THEN conjunct1] have a1: "fst (delete_agents agents_failure_world example_params [''a1'', ''a2'']) =
       Raise (Exception ''Error deleting agents: timed out'')" by simp
  from c2 [THEN conjunct2, THEN conjunct1] have a2: "fst (main agents_failure_world) = SysExit 1" by simp
  from c2 [THEN conjunct2, THEN conjunct2] have a3: "filter is_error_log (snd (main agents_failure_world)) =
       [Log ERROR [Lit ''An error occurred: '', Lit ''Error deleting agents: timed out'']]"
    by simp
  from c3 [THEN conjunct1] have d1: "fst (delete_configurations configurations_failure_world example_params
                      [''c1'', ''c2'']) =
       Raise (Exception ''Error deleting configurations: timed out'')" by simp
  from c3 [THEN conjunct2, THEN conjunct1] have d2: "fst (main configurations_failure_world) = SysExit 1" by simp
  from c3 [THEN conjunct2, THEN conjunct2] have d3: "filter is_error_log (snd (main configurations_failure_world)) =
       [Log ERROR [Lit ''An error occurred: '', Lit ''Error deleting configurations: timed out'']]"
    by simp
  from p b' t l1 l2 l3 a1 a2 a3 d1 d2 d3 show ?thesis by blast
qed

end
